theory Spec2Isabelle
  imports Complex_Main "HOL-Library.AList" "HOL-Library.Multiset"
begin

section \<open>Values read from backend JSON\<close>

text \<open>
  A numeric field of a backend row is a JSON number, \<open>null\<close>, or absent
  (\<open>undefined\<close> when read).  Numbers are taken as exact reals: the rounding
  error of double arithmetic is outside this development.
\<close>

datatype jsnum = Undefined | Null | Num real

text \<open>\<open>v || 0\<close> for a numeric field: every falsy value (absent, null, zero) gives 0.\<close>

definition orZero :: "jsnum \<Rightarrow> real" where
  "orZero v = (case v of Num x \<Rightarrow> x | _ \<Rightarrow> 0)"

text \<open>
  \<open>a + b\<close> on two numeric fields: \<open>undefined\<close> makes the sum NaN
  (\<open>None\<close>), \<open>null\<close> counts as 0.
\<close>

fun jsPlus :: "jsnum \<Rightarrow> jsnum \<Rightarrow> real option" where
  "jsPlus Undefined _ = None"
| "jsPlus _ Undefined = None"
| "jsPlus Null Null = Some 0"
| "jsPlus Null (Num b) = Some b"
| "jsPlus (Num a) Null = Some a"
| "jsPlus (Num a) (Num b) = Some (a + b)"

text \<open>\<open>s || 'unknown'\<close>-style fallbacks on strings: absent and empty are falsy.\<close>

definition truthyStr :: "string option \<Rightarrow> bool" where
  "truthyStr s = (case s of None \<Rightarrow> False | Some t \<Rightarrow> t \<noteq> [])"

section \<open>Data of the cost analysis\<close>

record usage_row =
  usage_model :: "string option"
  usage_totalCost :: jsnum
  usage_totalUsage :: jsnum
  usage_inputUsage :: jsnum
  usage_outputUsage :: jsnum
  usage_countObservations :: jsnum

record daily_row =
  day_date :: string
  day_totalCost :: jsnum
  day_countTraces :: jsnum
  day_usage :: "usage_row list option"

record metrics_row =
  row_userId :: "string option"
  row_totalCost_sum :: jsnum
  row_totalTokens_sum :: jsnum
  row_count_count :: jsnum

text \<open>
  The elements of a \<open>data\<close> or \<open>usage\<close> array are objects with the fields above.  On
  such rows no step of the three breakdown computations throws, so of the \<open>catch\<close>
  blocks of the cost analysis only those around the two client calls are entered.
\<close>

text \<open>
  What a call of the client gives back: it throws, or it returns a body whose
  \<open>data\<close> is not an array, or a body whose \<open>data\<close> is an array of rows.
\<close>

datatype 'a fetched = Throws | NoArray | Rows "'a list"

record query_filter =
  filter_column :: string
  filter_operator :: string
  filter_value :: string
  filter_type :: string

record metrics_query =
  q_view :: string
  q_from :: string
  q_to :: string
  q_metrics :: "(string \<times> string) list"
  q_dimensions :: "string list"
  q_filters :: "query_filter list"

record analytics_client =
  getProjectId :: string
  getDailyMetrics :: "string list option \<Rightarrow> daily_row fetched"
  getMetrics :: "metrics_query \<Rightarrow> metrics_row fetched"

record cost_args =
  arg_from :: string
  arg_to :: string
  arg_environment :: "string option"
  includeModelBreakdown :: bool
  includeUserBreakdown :: bool
  includeDailyBreakdown :: bool
  arg_limit :: nat

record model_entry =
  m_model :: string
  m_cost :: real
  m_tokens :: real
  m_observations :: real
  m_percentage :: real

record user_entry =
  u_userId :: string
  u_cost :: real
  u_tokens :: real
  u_traces :: real
  u_percentage :: real

record day_entry =
  e_date :: string
  e_cost :: real
  e_tokens :: real
  e_traces :: real

record breakdown =
  byModel :: "model_entry list option"
  byUser :: "user_entry list option"
  byDay :: "day_entry list option"

record cost_analysis =
  ca_projectId :: string
  ca_from :: string
  ca_to :: string
  totalCost :: real
  ca_breakdown :: breakdown

text \<open>
  A content block always has type \<open>text\<close>.  \<open>JsonText r\<close> stands for the block whose
  text is \<open>JSON.stringify(r, null, 2)\<close>; \<open>PlainText s\<close> for a block with the text \<open>s\<close>.
  The field \<open>isError\<close> of an envelope is optional: \<open>None\<close> is an object literal
  without that field.
\<close>

datatype text_block = JsonText cost_analysis | PlainText string

record envelope =
  content :: "text_block list"
  isError :: "bool option"

section \<open>The cost analysis\<close>

text \<open>
  \<open>new Date(s)\<close> is a parameter \<open>pd\<close>: the time value of the date, \<open>None\<close> for an
  invalid date.  A comparison with an invalid date is false.
\<close>

definition inWindow :: "(string \<Rightarrow> int option) \<Rightarrow> string \<Rightarrow> string \<Rightarrow> daily_row \<Rightarrow> bool" where
  "inWindow pd frm to day =
     (case (pd (day_date day), pd frm, pd to) of
        (Some d, Some f, Some t) \<Rightarrow> f \<le> d \<and> d \<le> t
      | _ \<Rightarrow> False)"

definition environmentTags :: "cost_args \<Rightarrow> string list option" where
  "environmentTags args =
     (if truthyStr (arg_environment args)
      then Some [''environment:'' @ the (arg_environment args)] else None)"

text \<open>The rows kept from the daily source; empty when the call throws or has no array.\<close>

definition dailyData :: "(string \<Rightarrow> int option) \<Rightarrow> analytics_client \<Rightarrow> cost_args \<Rightarrow> daily_row list" where
  "dailyData pd client args =
     (case getDailyMetrics client (environmentTags args) of
        Rows ds \<Rightarrow> filter (inWindow pd (arg_from args) (arg_to args)) ds
      | _ \<Rightarrow> [])"

definition sumCost :: "daily_row list \<Rightarrow> real" where
  "sumCost ds = foldl (\<lambda>s day. s + orZero (day_totalCost day)) 0 ds"

text \<open>\<open>usage.totalUsage || usage.inputUsage + usage.outputUsage || 0\<close>\<close>

definition usageTokens :: "usage_row \<Rightarrow> real" where
  "usageTokens u =
     (if orZero (usage_totalUsage u) \<noteq> 0 then orZero (usage_totalUsage u)
      else (case jsPlus (usage_inputUsage u) (usage_outputUsage u) of
              Some s \<Rightarrow> s | None \<Rightarrow> 0))"

definition modelName :: "usage_row \<Rightarrow> string" where
  "modelName u = (if truthyStr (usage_model u) then the (usage_model u) else ''unknown'')"

text \<open>
  The \<open>Map\<close> of the model breakdown keeps its keys in insertion order, and a
  \<open>set\<close> on a key already present keeps the key's place: an association list
  with \<open>AList.update\<close>.  An entry is (cost, tokens, observations).
\<close>

type_synonym model_map = "(string \<times> (real \<times> real \<times> real)) list"

definition existing :: "model_map \<Rightarrow> string \<Rightarrow> real \<times> real \<times> real" where
  "existing mp name = (case map_of mp name of Some e \<Rightarrow> e | None \<Rightarrow> (0, 0, 0))"

definition addUsage :: "model_map \<Rightarrow> usage_row \<Rightarrow> model_map" where
  "addUsage mp u =
     (let name = modelName u;
          (c, t, ob) = existing mp name
      in AList.update name
           (c + orZero (usage_totalCost u),
            t + usageTokens u,
            ob + orZero (usage_countObservations u)) mp)"

definition addDay :: "model_map \<Rightarrow> daily_row \<Rightarrow> model_map" where
  "addDay mp day = (case day_usage day of Some us \<Rightarrow> foldl addUsage mp us | None \<Rightarrow> mp)"

definition modelMap :: "daily_row list \<Rightarrow> model_map" where
  "modelMap ds = foldl addDay [] ds"

text \<open>\<open>Math.round(x)\<close> is the integer nearest to \<open>x\<close>, a tie going up.\<close>

definition Math_round :: "real \<Rightarrow> real" where
  "Math_round x = of_int \<lfloor>x + 1 / 2\<rfloor>"

definition percentageOf :: "real \<Rightarrow> real \<Rightarrow> real" where
  "percentageOf tot cost =
     (if tot > 0 then Math_round ((cost / tot) * 100 * 100) / 100 else 0)"

definition modelEntry :: "real \<Rightarrow> string \<times> (real \<times> real \<times> real) \<Rightarrow> model_entry" where
  "modelEntry tot kv =
     (case kv of (name, c, t, ob) \<Rightarrow>
        \<lparr>m_model = name, m_cost = c, m_tokens = t, m_observations = ob,
         m_percentage = percentageOf tot c\<rparr>)"

text \<open>
  \<open>sort((a, b) => b.cost - a.cost)\<close> is a stable sort by descending cost, and
  \<open>slice(0, limit)\<close> keeps the first \<open>limit\<close> rows.
\<close>

definition modelBreakdown :: "real \<Rightarrow> nat \<Rightarrow> daily_row list \<Rightarrow> model_entry list" where
  "modelBreakdown tot limit ds =
     take limit (sort_key (\<lambda>r. - m_cost r) (map (modelEntry tot) (modelMap ds)))"

definition environmentFilters :: "cost_args \<Rightarrow> query_filter list" where
  "environmentFilters args =
     (if truthyStr (arg_environment args)
      then [\<lparr>filter_column = ''environment'', filter_operator = ''equals'',
             filter_value = the (arg_environment args), filter_type = ''string''\<rparr>]
      else [])"

definition userQuery :: "cost_args \<Rightarrow> metrics_query" where
  "userQuery args =
     \<lparr>q_view = ''traces'', q_from = arg_from args, q_to = arg_to args,
      q_metrics = [(''totalCost'', ''sum''), (''totalTokens'', ''sum''), (''count'', ''count'')],
      q_dimensions = [''userId''],
      q_filters = environmentFilters args\<rparr>"

definition userEntry :: "real \<Rightarrow> metrics_row \<Rightarrow> user_entry" where
  "userEntry tot row =
     \<lparr>u_userId = the (row_userId row),
      u_cost = orZero (row_totalCost_sum row),
      u_tokens = orZero (row_totalTokens_sum row),
      u_traces = orZero (row_count_count row),
      u_percentage = percentageOf tot (orZero (row_totalCost_sum row))\<rparr>"

definition userBreakdown :: "real \<Rightarrow> analytics_client \<Rightarrow> cost_args \<Rightarrow> user_entry list" where
  "userBreakdown tot client args =
     (case getMetrics client (userQuery args) of
        Throws \<Rightarrow> []
      | NoArray \<Rightarrow> []
      | Rows rs \<Rightarrow>
          take (arg_limit args)
            (sort_key (\<lambda>r. - u_cost r)
               (map (userEntry tot) (filter (\<lambda>row. truthyStr (row_userId row)) rs))))"

definition dayTokens :: "daily_row \<Rightarrow> real" where
  "dayTokens day =
     (case day_usage day of
        Some us \<Rightarrow> foldl (\<lambda>s u. s + usageTokens u) 0 us
      | None \<Rightarrow> 0)"

definition dayEntry :: "daily_row \<Rightarrow> day_entry" where
  "dayEntry day =
     \<lparr>e_date = day_date day, e_cost = orZero (day_totalCost day),
      e_tokens = dayTokens day, e_traces = orZero (day_countTraces day)\<rparr>"

text \<open>
  \<open>new Date(a.date).getTime() - new Date(b.date).getTime()\<close>: every row that
  reaches the sort passed the window test, so its date is valid.
\<close>

definition getTime :: "(string \<Rightarrow> int option) \<Rightarrow> string \<Rightarrow> int" where
  "getTime pd s = (case pd s of Some t \<Rightarrow> t | None \<Rightarrow> 0)"

definition dailyBreakdown :: "(string \<Rightarrow> int option) \<Rightarrow> daily_row list \<Rightarrow> day_entry list" where
  "dailyBreakdown pd ds = sort_key (\<lambda>r. getTime pd (e_date r)) (map dayEntry ds)"

definition costResult :: "(string \<Rightarrow> int option) \<Rightarrow> analytics_client \<Rightarrow> cost_args \<Rightarrow> cost_analysis" where
  "costResult pd client args =
     (let ds = dailyData pd client args;
          tot = sumCost ds
      in \<lparr>ca_projectId = getProjectId client,
          ca_from = arg_from args,
          ca_to = arg_to args,
          totalCost = tot,
          ca_breakdown =
            \<lparr>byModel = (if includeModelBreakdown args
                         then Some (modelBreakdown tot (arg_limit args) ds) else None),
             byUser = (if includeUserBreakdown args
                        then Some (userBreakdown tot client args) else None),
             byDay = (if includeDailyBreakdown args
                       then Some (dailyBreakdown pd ds) else None)\<rparr>\<rparr>)"

definition getCostAnalysis :: "(string \<Rightarrow> int option) \<Rightarrow> analytics_client \<Rightarrow> cost_args \<Rightarrow> envelope" where
  "getCostAnalysis pd client args =
     \<lparr>content = [JsonText (costResult pd client args)], isError = None\<rparr>"

text \<open>The result a cost-analysis envelope carries.\<close>

definition resultOf :: "envelope \<Rightarrow> cost_analysis option" where
  "resultOf env = (case content env of [JsonText r] \<Rightarrow> Some r | _ \<Rightarrow> None)"

section \<open>What the breakdowns are compared with\<close>




section \<open>A two-day fixture\<close>

text \<open>
  Two days of daily data, each with one usage row for the model gpt-4, and a window
  that holds both days.  The date parser is given by its values on the strings used.
\<close>

definition fixtureDates :: "string \<Rightarrow> int option" where
  "fixtureDates = map_of
     [(''2024-01-01T00:00:00.000Z'', 1704067200000),
      (''2024-01-02T00:00:00.000Z'', 1704153600000),
      (''2024-01-31T00:00:00.000Z'', 1706659200000)]"

definition fixtureDay1 :: daily_row where
  "fixtureDay1 =
     \<lparr>day_date = ''2024-01-01T00:00:00.000Z'', day_totalCost = Num 1,
      day_countTraces = Undefined,
      day_usage = Some [\<lparr>usage_model = Some ''gpt-4'', usage_totalCost = Num 1,
                         usage_totalUsage = Num 100, usage_inputUsage = Undefined,
                         usage_outputUsage = Undefined,
                         usage_countObservations = Undefined\<rparr>]\<rparr>"

definition fixtureDay2 :: daily_row where
  "fixtureDay2 =
     \<lparr>day_date = ''2024-01-02T00:00:00.000Z'', day_totalCost = Num (5 / 2),
      day_countTraces = Undefined,
      day_usage = Some [\<lparr>usage_model = Some ''gpt-4'', usage_totalCost = Num (5 / 2),
                         usage_totalUsage = Num 250, usage_inputUsage = Undefined,
                         usage_outputUsage = Undefined,
                         usage_countObservations = Undefined\<rparr>]\<rparr>"

definition fixtureClient :: analytics_client where
  "fixtureClient =
     \<lparr>getProjectId = ''default'',
      getDailyMetrics = (\<lambda>tags. Rows [fixtureDay2, fixtureDay1]),
      getMetrics = (\<lambda>q. Rows
        [\<lparr>row_userId = None, row_totalCost_sum = Num 1,
          row_totalTokens_sum = Num 100, row_count_count = Num 2\<rparr>,
         \<lparr>row_userId = Some ''alice'', row_totalCost_sum = Num (7 / 4),
          row_totalTokens_sum = Num 175, row_count_count = Num 3\<rparr>])\<rparr>"

definition fixtureFailing :: analytics_client where
  "fixtureFailing = fixtureClient\<lparr>getMetrics := (\<lambda>q. Throws)\<rparr>"

definition fixtureArgs :: cost_args where
  "fixtureArgs =
     \<lparr>arg_from = ''2024-01-01T00:00:00.000Z'', arg_to = ''2024-01-31T00:00:00.000Z'',
      arg_environment = None, includeModelBreakdown = True, includeUserBreakdown = True,
      includeDailyBreakdown = True, arg_limit = 20\<rparr>"

section \<open>Strings\<close>

text \<open>\<open>s.startsWith(p)\<close>\<close>

definition startsWith :: "string \<Rightarrow> string \<Rightarrow> bool" where
  "startsWith p s = (take (length p) s = p)"

text \<open>\<open>s.split(c)\<close> for a one-character separator: never empty, \<open>''''.split(c)\<close> is \<open>['''']\<close>.\<close>

fun split :: "char \<Rightarrow> string \<Rightarrow> string list" where
  "split c [] = [[]]"
| "split c (x # xs) =
     (if x = c then [] # split c xs
      else (case split c xs of [] \<Rightarrow> [[x]] | w # ws \<Rightarrow> (x # w) # ws))"

text \<open>\<open>n.toString()\<close> for a non-negative integer.\<close>

fun string_of_nat :: "nat \<Rightarrow> string" where
  "string_of_nat n =
     (if n < 10 then [''0123456789'' ! n]
      else string_of_nat (n div 10) @ [''0123456789'' ! (n mod 10)])"

text \<open>\<open>s.toLowerCase()\<close> on ASCII letters; every other character is kept.\<close>

definition toLowerChar :: "char \<Rightarrow> char" where
  "toLowerChar c =
     (case map_of (zip ''ABCDEFGHIJKLMNOPQRSTUVWXYZ'' ''abcdefghijklmnopqrstuvwxyz'') c of
        Some l \<Rightarrow> l | None \<Rightarrow> c)"

definition toLowerCase :: "string \<Rightarrow> string" where
  "toLowerCase s = map toLowerChar s"

section \<open>Configuration from the environment\<close>

record environment =
  LANGFUSE_PUBLIC_KEY :: "string option"
  LANGFUSE_SECRET_KEY :: "string option"
  LANGFUSE_BASEURL :: "string option"

record LangfuseProjectConfig =
  cfg_id :: string
  baseUrl :: string
  publicKey :: string
  secretKey :: string

text \<open>
  The two errors \<open>getProjectConfig\<close> throws.  Both are plain \<open>Error\<close> objects, told apart
  by their message: \<open>MissingVariables\<close> is ``Missing required environment variables:
  LANGFUSE_PUBLIC_KEY and LANGFUSE_SECRET_KEY'', and \<open>SecurityError u\<close> is ``Security
  Error: LANGFUSE_BASEURL must use HTTPS protocol to protect credentials. Got: u. ...''.
\<close>

datatype config_error = MissingVariables | SecurityError string

text \<open>\<open>publicKey.split('-')[2]?.substring(0, 8) || 'default'\<close>\<close>

definition projectIdOf :: "string \<Rightarrow> string" where
  "projectIdOf pk =
     (let parts = split (CHR ''-'') pk
      in if 2 < length parts \<and> take 8 (parts ! 2) \<noteq> [] then take 8 (parts ! 2)
         else ''default'')"

definition getProjectConfig :: "environment \<Rightarrow> config_error + LangfuseProjectConfig" where
  "getProjectConfig env =
     (let pk = LANGFUSE_PUBLIC_KEY env;
          sk = LANGFUSE_SECRET_KEY env;
          url = (if truthyStr (LANGFUSE_BASEURL env) then the (LANGFUSE_BASEURL env)
                 else ''https://cloud.langfuse.com'')
      in if \<not> truthyStr pk \<or> \<not> truthyStr sk then Inl MissingVariables
         else if \<not> startsWith ''https://'' url then Inl (SecurityError url)
         else Inr \<lparr>cfg_id = projectIdOf (the pk), baseUrl = url,
                   publicKey = the pk, secretKey = the sk\<rparr>)"

section \<open>URLs and their query strings\<close>

text \<open>
  \<open>URLSearchParams\<close> is a list of name/value pairs in order.  \<open>append\<close> adds a pair at
  the end; \<open>set\<close> overwrites the first pair of that name, drops the others, and appends
  when there is none.  On a list without repeated names, as every list built by \<open>set\<close>
  alone is, \<open>set\<close> is \<open>AList.update\<close>.
\<close>

type_synonym search_params = "(string \<times> string) list"

definition params_set :: "string \<Rightarrow> string \<Rightarrow> search_params \<Rightarrow> search_params" where
  "params_set k v ps = AList.update k v ps"

text \<open>
  \<open>toString()\<close> serialises as \<open>application/x-www-form-urlencoded\<close>: letters, digits
  and \<open>* - . _\<close> stay, a space becomes \<open>+\<close>, every other byte becomes \<open>%XX\<close>; pairs
  are written \<open>name=value\<close> and joined by \<open>&\<close>.  Strings are taken as their UTF-8 bytes.
\<close>

definition unreserved :: "char \<Rightarrow> bool" where
  "unreserved c =
     (c \<in> set ''ABCDEFGHIJKLMNOPQRSTUVWXYZabcdefghijklmnopqrstuvwxyz0123456789*-._'')"

definition encodeByte :: "char \<Rightarrow> string" where
  "encodeByte c =
     (if unreserved c then [c]
      else if c = CHR '' '' then ''+''
      else [CHR ''%'', ''0123456789ABCDEF'' ! ((of_char c :: nat) div 16),
            ''0123456789ABCDEF'' ! ((of_char c :: nat) mod 16)])"

definition formEncode :: "string \<Rightarrow> string" where
  "formEncode s = concat (map encodeByte s)"

fun params_toString :: "search_params \<Rightarrow> string" where
  "params_toString [] = []"
| "params_toString [(k, v)] = formEncode k @ ''='' @ formEncode v"
| "params_toString ((k, v) # p # ps) =
     formEncode k @ ''='' @ formEncode v @ ''&'' @ params_toString (p # ps)"

text \<open>
  What \<open>new URL(s)\<close> gives: the path and the decoded query pairs.  The parser itself
  belongs to the platform and is a parameter, \<open>None\<close> when it throws.
\<close>

record url =
  pathname :: string
  searchParams :: search_params

definition allowedParams :: "string list" where
  "allowedParams = [''limit'', ''page'', ''view'', ''orderBy'', ''orderDirection'']"

definition sanitizedParams :: "search_params \<Rightarrow> search_params" where
  "sanitizedParams ps =
     foldl (\<lambda>sp (key, val).
              if key \<in> set allowedParams then params_set key val sp
              else params_set key ''[REDACTED]'' sp) [] ps"

definition sanitizeUrlForLogging :: "(string \<Rightarrow> url option) \<Rightarrow> string \<Rightarrow> string" where
  "sanitizeUrlForLogging parse u =
     (case parse u of
        None \<Rightarrow> ''/api/[INVALID_URL]''
      | Some urlObj \<Rightarrow>
          (let queryString = params_toString (sanitizedParams (searchParams urlObj))
           in pathname urlObj @ (if queryString \<noteq> [] then ''?'' @ queryString else [])))"

text \<open>
  The values of the platform's parser on the three strings used below; the last one
  has no scheme, and \<open>new URL\<close> throws on it.
\<close>

definition fixtureParse :: "string \<Rightarrow> url option" where
  "fixtureParse s =
     (if s = ''https://cloud.langfuse.com/api/public/traces?sessionId=secret123&limit=10''
      then Some \<lparr>pathname = ''/api/public/traces'',
                  searchParams = [(''sessionId'', ''secret123''), (''limit'', ''10'')]\<rparr>
      else if s = ''https://cloud.langfuse.com/api/public/traces?page=1&page=2''
      then Some \<lparr>pathname = ''/api/public/traces'',
                  searchParams = [(''page'', ''1''), (''page'', ''2'')]\<rparr>
      else None)"

section \<open>Transport errors\<close>

text \<open>
  A response as the client reads it: the status, the status text, what \<open>text()\<close> gives
  (\<open>Inl\<close> when reading the body fails) and what \<open>json()\<close> gives.
\<close>

record response =
  status :: nat
  statusText :: string
  resp_text :: "string + string"
  resp_json :: "string + string"

definition ok :: "response \<Rightarrow> bool" where
  "ok r = (200 \<le> status r \<and> status r \<le> 299)"

text \<open>
  \<open>handleApiError\<close> writes one line to the server's log and throws; the result is the
  pair of the logged line and the message of the thrown error.
\<close>

definition handleApiError ::
  "(string \<Rightarrow> url option) \<Rightarrow> response \<Rightarrow> string \<Rightarrow> string option \<Rightarrow> string \<times> string" where
  "handleApiError parse r operation u =
     (let errorText = (case resp_text r of Inl e \<Rightarrow> ''Unable to read error response''
                       | Inr t \<Rightarrow> t);
          sanitizedUrl = (if truthyStr u then sanitizeUrlForLogging parse (the u) else [])
      in (operation @ '' API error: '' @ string_of_nat (status r) @ '' '' @ statusText r
            @ (if sanitizedUrl \<noteq> [] then ''. URL: '' @ sanitizedUrl else [])
            @ ''. Response: [REDACTED for security]'',
          ''Failed to '' @ toLowerCase operation @ '': API returned status ''
            @ string_of_nat (status r)))"

record traces_params =
  p_page :: "nat option"
  p_limit :: "nat option"
  p_name :: "string option"
  p_userId :: "string option"
  p_tags :: "string list option"
  p_filter :: "string option"
  p_orderBy :: "string option"
  p_orderDirection :: "string option"
  p_fromTimestamp :: "string option"
  p_toTimestamp :: "string option"

definition truthyNat :: "nat option \<Rightarrow> bool" where
  "truthyNat n = (case n of None \<Rightarrow> False | Some k \<Rightarrow> k \<noteq> 0)"

text \<open>The query of \<open>listTraces\<close>, built by \<open>append\<close> in this order.\<close>

definition tracesQuery :: "traces_params \<Rightarrow> search_params" where
  "tracesQuery p =
     (if truthyNat (p_page p) then [(''page'', string_of_nat (the (p_page p)))] else [])
     @ (if truthyNat (p_limit p) then [(''limit'', string_of_nat (the (p_limit p)))] else [])
     @ (if truthyStr (p_name p) then [(''name'', the (p_name p))] else [])
     @ (if truthyStr (p_userId p) then [(''userId'', the (p_userId p))] else [])
     @ (if truthyStr (p_orderBy p)
           \<and> the (p_orderBy p) \<in> set [''timestamp'', ''name'', ''totalCost'']
        then [(''order_by'',
               the (p_orderBy p) @ '' ''
                 @ (if p_orderDirection p = Some ''asc'' then ''ASC'' else ''DESC''))]
        else [])
     @ (if truthyStr (p_fromTimestamp p) then [(''fromTimestamp'', the (p_fromTimestamp p))]
        else [])
     @ (if truthyStr (p_toTimestamp p) then [(''toTimestamp'', the (p_toTimestamp p))] else [])
     @ (case p_tags p of None \<Rightarrow> [] | Some ts \<Rightarrow> map (\<lambda>tag. (''tags'', tag)) ts)
     @ (if truthyStr (p_filter p) then [(''filter'', the (p_filter p))] else [])"

definition tracesUrl :: "LangfuseProjectConfig \<Rightarrow> traces_params \<Rightarrow> string" where
  "tracesUrl cfg p = baseUrl cfg @ ''/api/public/traces?'' @ params_toString (tracesQuery p)"

text \<open>
  \<open>listTraces\<close> of \<open>src/langfuse-client.ts\<close>.  The fetch is a parameter; the result is
  \<open>Inl\<close> the message of the error thrown, or \<open>Inr\<close> the parsed body.  On a response that
  is not ok it reads the body, a failure to read propagating, and throws a message
  built from the status, the status text, the URL and the first 200 characters of the
  body.
\<close>

definition listTraces ::
  "(string \<Rightarrow> response) \<Rightarrow> LangfuseProjectConfig \<Rightarrow> traces_params \<Rightarrow> string + string" where
  "listTraces fetch cfg p =
     (let u = tracesUrl cfg p; r = fetch u
      in if \<not> ok r
         then (case resp_text r of
                 Inl e \<Rightarrow> Inl e
               | Inr errorText \<Rightarrow>
                   Inl (''Traces API error: '' @ string_of_nat (status r) @ '' '' @ statusText r
                        @ ''. URL: '' @ u @ ''. Response: '' @ take 200 errorText))
         else resp_json r)"

text \<open>
  \<open>listTraces\<close> of the later revision of the client, which hands a response that is
  not ok to \<open>handleApiError\<close>.
\<close>

definition listTraces_handled ::
  "(string \<Rightarrow> url option) \<Rightarrow> (string \<Rightarrow> response) \<Rightarrow> LangfuseProjectConfig \<Rightarrow> traces_params
     \<Rightarrow> string + string" where
  "listTraces_handled parse fetch cfg p =
     (let u = tracesUrl cfg p; r = fetch u
      in if \<not> ok r then Inl (snd (handleApiError parse r ''Traces'' (Some u)))
         else resp_json r)"

text \<open>A configuration, a request and two failing responses that differ in the body alone.\<close>

definition fixtureConfig :: LangfuseProjectConfig where
  "fixtureConfig =
     \<lparr>cfg_id = ''test'', baseUrl = ''https://cloud.langfuse.com'',
      publicKey = ''pk-lf-test-key'', secretKey = ''sk-lf-test-secret''\<rparr>"

definition fixtureTraces :: traces_params where
  "fixtureTraces =
     \<lparr>p_page = None, p_limit = Some 10, p_name = None, p_userId = Some ''alice'',
      p_tags = None, p_filter = None, p_orderBy = None, p_orderDirection = None,
      p_fromTimestamp = None, p_toTimestamp = None\<rparr>"

definition fixtureFailure :: "string \<Rightarrow> response" where
  "fixtureFailure body =
     \<lparr>status = 500, statusText = ''Internal Server Error'', resp_text = Inr body,
      resp_json = Inl ''Unexpected token''\<rparr>"

section \<open>The call-tool handler\<close>

datatype tool =
    List_projects | Project_overview | Usage_by_model | Usage_by_service
  | Top_expensive_traces | Get_trace_detail | Get_projects | Get_metrics | Get_traces
  | Get_observations | Get_cost_analysis | Get_daily_metrics | Get_observation_detail
  | Get_health_status | List_models | Get_model_detail | List_prompts | Get_prompt_detail

text \<open>The \<open>switch\<close> on \<open>request.params.name\<close>; \<open>None\<close> is its \<open>default\<close> branch.\<close>

definition toolOfName :: "string \<Rightarrow> tool option" where
  "toolOfName = map_of
     [(''list_projects'', List_projects), (''project_overview'', Project_overview),
      (''usage_by_model'', Usage_by_model), (''usage_by_service'', Usage_by_service),
      (''top_expensive_traces'', Top_expensive_traces),
      (''get_trace_detail'', Get_trace_detail), (''get_projects'', Get_projects),
      (''get_metrics'', Get_metrics), (''get_traces'', Get_traces),
      (''get_observations'', Get_observations), (''get_cost_analysis'', Get_cost_analysis),
      (''get_daily_metrics'', Get_daily_metrics),
      (''get_observation_detail'', Get_observation_detail),
      (''get_health_status'', Get_health_status), (''list_models'', List_models),
      (''get_model_detail'', Get_model_detail), (''list_prompts'', List_prompts),
      (''get_prompt_detail'', Get_prompt_detail)]"

text \<open>The names the list-tools handler of \<open>index.ts\<close> announces, in its order.\<close>

definition listedTools :: "string list" where
  "listedTools =
     [''list_projects'', ''project_overview'', ''usage_by_model'', ''usage_by_service'',
      ''top_expensive_traces'', ''get_trace_detail'', ''get_projects'', ''get_metrics'',
      ''get_traces'', ''get_observations'', ''get_cost_analysis'', ''get_daily_metrics'',
      ''get_observation_detail'', ''get_health_status'', ''list_models'', ''get_model_detail'',
      ''list_prompts'', ''get_prompt_detail'']"

text \<open>The envelope built in the \<open>catch\<close> block from the message of what was thrown.\<close>

definition errorEnvelope :: "string \<Rightarrow> envelope" where
  "errorEnvelope errorMessage =
     \<lparr>content = [PlainText (''Error: '' @ errorMessage)], isError = Some True\<rparr>"

text \<open>
  The handler of a call.  The schemas and the tool functions are parameters: \<open>parse t\<close>
  is \<open>schema.parse\<close> of tool \<open>t\<close> and \<open>handler t\<close> its function, each giving \<open>Inl\<close> the
  message of what it throws.  Everything happens inside one \<open>try\<close>, and the tool is
  awaited there, so whatever is thrown reaches the \<open>catch\<close>.
\<close>

definition callTool ::
  "(tool \<Rightarrow> 'raw \<Rightarrow> string + 'args) \<Rightarrow> (tool \<Rightarrow> 'args \<Rightarrow> string + envelope)
     \<Rightarrow> string \<Rightarrow> 'raw \<Rightarrow> envelope" where
  "callTool parse handler name raw =
     (case toolOfName name of
        None \<Rightarrow> errorEnvelope (''Unknown tool: '' @ name)
      | Some t \<Rightarrow>
          (case parse t raw of
             Inl e \<Rightarrow> errorEnvelope e
           | Inr args \<Rightarrow>
               (case handler t args of
                  Inl e \<Rightarrow> errorEnvelope e
                | Inr env \<Rightarrow> env)))"

text \<open>
  A tool table for the fixture: the arguments already have the schema's shape, and
  \<open>get_cost_analysis\<close> is the cost analysis on the fixture client.
\<close>

definition fixtureParseArgs :: "tool \<Rightarrow> cost_args \<Rightarrow> string + cost_args" where
  "fixtureParseArgs t raw = Inr raw"

definition fixtureHandlers :: "tool \<Rightarrow> cost_args \<Rightarrow> string + envelope" where
  "fixtureHandlers t args =
     (if t = Get_cost_analysis then Inr (getCostAnalysis fixtureDates fixtureClient args)
      else Inl ''Failed to traces: API returned status 500'')"

section \<open>The capability mode gate\<close>

text \<open>
  Modelled from the spec: the mode configuration (\<open>mode-config\<close>, \<open>getServerMode\<close>,
  \<open>getModeConfig\<close>) and the mode-aware operation list and authorisation are not among
  the sources; only their caller \<open>getServerModeConfig\<close> and the start-up test
  \<open>test-modes.js\<close> are.  The definitions of this section follow sections 4.3 and 4.4
  of the specification: two modes, read-only unless read-write is chosen at start-up;
  the read-only catalog leaves out the mutating operations; the read-write catalog has
  every operation, a mutating one under its name with the prefix \<open>write_\<close>.
\<close>

datatype ServerMode = READONLY | READWRITE

record descriptor =
  op_name :: string
  op_description :: string
  mutating :: bool

definition writePrefix :: string where
  "writePrefix = ''write_''"

definition getServerMode :: "string option \<Rightarrow> ServerMode" where
  "getServerMode selector = (if selector = Some ''readwrite'' then READWRITE else READONLY)"

definition visible :: "descriptor \<Rightarrow> descriptor" where
  "visible d = (if mutating d then d\<lparr>op_name := writePrefix @ op_name d\<rparr> else d)"

definition filterCatalog :: "ServerMode \<Rightarrow> descriptor list \<Rightarrow> descriptor list" where
  "filterCatalog mode ops =
     (case mode of
        READONLY \<Rightarrow> filter (\<lambda>d. \<not> mutating d) ops
      | READWRITE \<Rightarrow> map visible ops)"

record mode_server =
  srv_mode :: ServerMode
  srv_catalog :: "descriptor list"

definition startServer :: "string option \<Rightarrow> descriptor list \<Rightarrow> mode_server" where
  "startServer selector ops = \<lparr>srv_mode = getServerMode selector, srv_catalog = ops\<rparr>"

definition listOperations :: "mode_server \<Rightarrow> descriptor list" where
  "listOperations srv = filterCatalog (srv_mode srv) (srv_catalog srv)"

datatype request = ListOperations | Invoke string

datatype reply = Operations "descriptor list" | Allowed descriptor | ModeViolation | UnknownOperation

definition authorize :: "mode_server \<Rightarrow> string \<Rightarrow> reply" where
  "authorize srv name =
     (case find (\<lambda>d. op_name (visible d) = name) (srv_catalog srv) of
        None \<Rightarrow> UnknownOperation
      | Some d \<Rightarrow> if mutating d \<and> srv_mode srv = READONLY then ModeViolation else Allowed d)"

text \<open>One request: the server after it, and the reply.\<close>

definition serve :: "mode_server \<Rightarrow> request \<Rightarrow> mode_server \<times> reply" where
  "serve srv req =
     (case req of
        ListOperations \<Rightarrow> (srv, Operations (listOperations srv))
      | Invoke name \<Rightarrow> (srv, authorize srv name))"

definition serveAll :: "mode_server \<Rightarrow> request list \<Rightarrow> mode_server" where
  "serveAll srv reqs = foldl (\<lambda>s req. fst (serve s req)) srv reqs"

definition fixtureCatalog :: "descriptor list" where
  "fixtureCatalog =
     [\<lparr>op_name = ''get_cost_analysis'', op_description = ''Cost breakdowns'', mutating = False\<rparr>,
      \<lparr>op_name = ''create_dataset'', op_description = ''Create a dataset'', mutating = True\<rparr>]"

section \<open>The client and its configuration object\<close>

text \<open>
  Objects live in a store, a list indexed by reference in order of allocation.  The
  client holds a reference to its configuration object; \<open>{ ...this.config }\<close> allocates
  a new object with the same field values and returns its reference.  The fields are
  strings, so a copy of the fields shares nothing with the original.
\<close>

type_synonym ref = nat

type_synonym store = "LangfuseProjectConfig list"

record LangfuseAnalyticsClient =
  config :: ref

definition getConfig :: "LangfuseAnalyticsClient \<Rightarrow> store \<Rightarrow> ref \<times> store" where
  "getConfig c h = (length h, h @ [h ! config c])"

text \<open>An assignment \<open>obj.field = value\<close> to an object in the store.\<close>

datatype field_write =
  Set_id string | Set_baseUrl string | Set_publicKey string | Set_secretKey string

fun writeField :: "field_write \<Rightarrow> LangfuseProjectConfig \<Rightarrow> LangfuseProjectConfig" where
  "writeField (Set_id v) obj = obj\<lparr>cfg_id := v\<rparr>"
| "writeField (Set_baseUrl v) obj = obj\<lparr>baseUrl := v\<rparr>"
| "writeField (Set_publicKey v) obj = obj\<lparr>publicKey := v\<rparr>"
| "writeField (Set_secretKey v) obj = obj\<lparr>secretKey := v\<rparr>"

definition assign :: "ref \<Rightarrow> field_write \<Rightarrow> store \<Rightarrow> store" where
  "assign r w h = (if r < length h then h[r := writeField w (h ! r)] else h)"

definition assignAll :: "ref \<Rightarrow> field_write list \<Rightarrow> store \<Rightarrow> store" where
  "assignAll r ws h = foldl (\<lambda>h' w. assign r w h') h ws"

text \<open>What the client's calls read: \<open>this.config\<close> through the client's reference.\<close>

definition clientConfig :: "LangfuseAnalyticsClient \<Rightarrow> store \<Rightarrow> LangfuseProjectConfig" where
  "clientConfig c h = h ! config c"

text \<open>The credentials that go, base64-encoded, into the \<open>Authorization\<close> header.\<close>

definition credentials :: "LangfuseAnalyticsClient \<Rightarrow> store \<Rightarrow> string" where
  "credentials c h = publicKey (clientConfig c h) @ '':'' @ secretKey (clientConfig c h)"

definition client_listTraces ::
  "(string \<Rightarrow> response) \<Rightarrow> LangfuseAnalyticsClient \<Rightarrow> store \<Rightarrow> traces_params \<Rightarrow> string + string" where
  "client_listTraces fetch c h p = listTraces fetch (clientConfig c h) p"

definition fixtureStore :: store where
  "fixtureStore = [fixtureConfig]"

definition fixtureAnalyticsClient :: LangfuseAnalyticsClient where
  "fixtureAnalyticsClient = \<lparr>config = 0\<rparr>"

section \<open>Cost analysis: totals and the daily breakdown\<close>





section \<open>Cost analysis: the model breakdown\<close>


















lemma fixtureArgs_fields:
  "arg_from fixtureArgs = ''2024-01-01T00:00:00.000Z''"
  "arg_to fixtureArgs = ''2024-01-31T00:00:00.000Z''"
  "includeModelBreakdown fixtureArgs" "includeUserBreakdown fixtureArgs"
  "includeDailyBreakdown fixtureArgs" "arg_limit fixtureArgs = 20"
  by (simp_all add: fixtureArgs_def)

lemma fixture_dailyData:
  "dailyData fixtureDates fixtureClient fixtureArgs = [fixtureDay2, fixtureDay1]"
  by (simp add: dailyData_def fixtureClient_def fixtureArgs_def inWindow_def fixtureDates_def
      fixtureDay1_def fixtureDay2_def environmentTags_def truthyStr_def)

lemma fixture_sumCost: "sumCost [fixtureDay2, fixtureDay1] = 7 / 2"
  by (simp add: sumCost_def fixtureDay1_def fixtureDay2_def orZero_def)

lemma fixture_modelBreakdown:
  "modelBreakdown (7 / 2) 20 [fixtureDay2, fixtureDay1]
     = [\<lparr>m_model = ''gpt-4'', m_cost = 7 / 2, m_tokens = 350, m_observations = 0,
         m_percentage = 100\<rparr>]"
  by (simp add: modelBreakdown_def modelMap_def addDay_def addUsage_def existing_def
      fixtureDay1_def fixtureDay2_def modelName_def truthyStr_def orZero_def usageTokens_def
      modelEntry_def percentageOf_def Math_round_def)

lemma fixture_userBreakdown:
  "userBreakdown (7 / 2) fixtureClient fixtureArgs
     = [\<lparr>u_userId = ''alice'', u_cost = 7 / 4, u_tokens = 175, u_traces = 3,
         u_percentage = 50\<rparr>]"
proof -
  have "getMetrics fixtureClient (userQuery fixtureArgs) = Rows
        [\<lparr>row_userId = None, row_totalCost_sum = Num 1,
          row_totalTokens_sum = Num 100, row_count_count = Num 2\<rparr>,
         \<lparr>row_userId = Some ''alice'', row_totalCost_sum = Num (7 / 4),
          row_totalTokens_sum = Num 175, row_count_count = Num 3\<rparr>]"
    by (simp add: fixtureClient_def)
  moreover have "arg_limit fixtureArgs = 20"
    by (simp add: fixtureArgs_def)
  moreover have "percentageOf (7 / 2) (7 / 4) = 50"
    by (simp add: percentageOf_def Math_round_def)
  ultimately show ?thesis
    by (simp add: userBreakdown_def userEntry_def truthyStr_def orZero_def)
qed

lemma fixture_dailyBreakdown:
  "dailyBreakdown fixtureDates [fixtureDay2, fixtureDay1]
     = [\<lparr>e_date = ''2024-01-01T00:00:00.000Z'', e_cost = 1, e_tokens = 100, e_traces = 0\<rparr>,
        \<lparr>e_date = ''2024-01-02T00:00:00.000Z'', e_cost = 5 / 2, e_tokens = 250, e_traces = 0\<rparr>]"
  by (simp add: dailyBreakdown_def dayEntry_def dayTokens_def usageTokens_def orZero_def
      fixtureDay1_def fixtureDay2_def getTime_def fixtureDates_def)

lemma fixture_costResult:
  "costResult fixtureDates fixtureClient fixtureArgs =
     \<lparr>ca_projectId = ''default'',
      ca_from = ''2024-01-01T00:00:00.000Z'', ca_to = ''2024-01-31T00:00:00.000Z'',
      totalCost = 7 / 2,
      ca_breakdown =
        \<lparr>byModel = Some [\<lparr>m_model = ''gpt-4'', m_cost = 7 / 2, m_tokens = 350,
                           m_observations = 0, m_percentage = 100\<rparr>],
         byUser = Some [\<lparr>u_userId = ''alice'', u_cost = 7 / 4, u_tokens = 175, u_traces = 3,
                          u_percentage = 50\<rparr>],
         byDay = Some
           [\<lparr>e_date = ''2024-01-01T00:00:00.000Z'', e_cost = 1, e_tokens = 100, e_traces = 0\<rparr>,
            \<lparr>e_date = ''2024-01-02T00:00:00.000Z'', e_cost = 5 / 2, e_tokens = 250,
              e_traces = 0\<rparr>]\<rparr>\<rparr>"
proof -
  have "getProjectId fixtureClient = ''default''"
    by (simp add: fixtureClient_def)
  then show ?thesis
    by (simp add: costResult_def Let_def fixture_dailyData fixture_sumCost
        fixture_dailyBreakdown fixtureArgs_fields fixture_modelBreakdown fixture_userBreakdown)
qed




text \<open>
  The costs of \<open>byDay\<close> are the costs of the in-window rows rearranged; when the source
  already lists the rows by ascending date they are the same list in the same order.
\<close>

lemma dailyBreakdown_cost_mset:
  "mset (map e_cost (dailyBreakdown pd ds)) = mset (map (\<lambda>day. orZero (day_totalCost day)) ds)"
  by (simp add: dailyBreakdown_def dayEntry_def multiset.map_comp o_def)

lemma dailyBreakdown_sorted_source:
  assumes "sorted (map (\<lambda>day. getTime pd (day_date day)) ds)"
  shows "map e_cost (dailyBreakdown pd ds) = map (\<lambda>day. orZero (day_totalCost day)) ds"
proof -
  have "map (\<lambda>r. getTime pd (e_date r)) (map dayEntry ds)
          = map (\<lambda>day. getTime pd (day_date day)) ds"
    by (simp add: dayEntry_def)
  then have "sort_key (\<lambda>r. getTime pd (e_date r)) (map dayEntry ds) = map dayEntry ds"
    using assms by (simp add: sort_key_id_if_sorted del: map_map)
  then show ?thesis
    by (simp add: dailyBreakdown_def dayEntry_def)
qed



text \<open>
  C2.  When the user-breakdown call throws, \<open>byUser\<close> is the empty list, the total,
  \<open>byModel\<close> and \<open>byDay\<close> are what they are for a client whose user call works and whose
  daily source is the same, and the envelope does not have \<open>isError\<close> true.
\<close>

theorem user_source_failure_isolated:
  assumes "includeUserBreakdown args"
    and "getMetrics failing (userQuery args) = Throws"
    and "getDailyMetrics failing = getDailyMetrics client"
  shows "isError (getCostAnalysis pd failing args) \<noteq> Some True
     \<and> content (getCostAnalysis pd failing args) = [JsonText (costResult pd failing args)]
     \<and> byUser (ca_breakdown (costResult pd failing args)) = Some []
     \<and> byModel (ca_breakdown (costResult pd failing args))
         = byModel (ca_breakdown (costResult pd client args))
     \<and> byDay (ca_breakdown (costResult pd failing args))
         = byDay (ca_breakdown (costResult pd client args))
     \<and> totalCost (costResult pd failing args) = totalCost (costResult pd client args)
     \<and> byModel (ca_breakdown (costResult pd failing args))
         = (if includeModelBreakdown args
            then Some (modelBreakdown (sumCost (dailyData pd client args)) (arg_limit args)
                         (dailyData pd client args))
            else None)
     \<and> byDay (ca_breakdown (costResult pd failing args))
         = (if includeDailyBreakdown args
            then Some (dailyBreakdown pd (dailyData pd client args)) else None)"
  using assms
  by (simp add: getCostAnalysis_def costResult_def Let_def dailyData_def userBreakdown_def)

theorem user_source_failure_isolated_witness:
  "includeUserBreakdown fixtureArgs
   \<and> getMetrics fixtureFailing (userQuery fixtureArgs) = Throws
   \<and> getDailyMetrics fixtureFailing = getDailyMetrics fixtureClient
   \<and> isError (getCostAnalysis fixtureDates fixtureFailing fixtureArgs) \<noteq> Some True
   \<and> byUser (ca_breakdown (costResult fixtureDates fixtureFailing fixtureArgs)) = Some []
   \<and> byModel (ca_breakdown (costResult fixtureDates fixtureFailing fixtureArgs))
       = Some [\<lparr>m_model = ''gpt-4'', m_cost = 7 / 2, m_tokens = 350,
                m_observations = 0, m_percentage = 100\<rparr>]
   \<and> byDay (ca_breakdown (costResult fixtureDates fixtureFailing fixtureArgs))
       = Some [\<lparr>e_date = ''2024-01-01T00:00:00.000Z'', e_cost = 1, e_tokens = 100, e_traces = 0\<rparr>,
               \<lparr>e_date = ''2024-01-02T00:00:00.000Z'', e_cost = 5 / 2, e_tokens = 250,
                 e_traces = 0\<rparr>]"
proof -
  have a: "includeUserBreakdown fixtureArgs"
    by (simp add: fixtureArgs_def)
  have b: "getMetrics fixtureFailing (userQuery fixtureArgs) = Throws"
    by (simp add: fixtureFailing_def)
  have c: "getDailyMetrics fixtureFailing = getDailyMetrics fixtureClient"
    by (simp add: fixtureFailing_def)
  show ?thesis
    using user_source_failure_isolated [OF a b c, of fixtureDates] a b c
    by (simp add: fixture_costResult)
qed








section \<open>Configuration resolution\<close>

text \<open>
  C4, as stated, fails twice.  With a key missing, an \<open>http://\<close> base URL gives the
  missing-variables error, not the security error; and an empty base URL, which does
  not start with \<open>https://\<close>, falls back to the default and a configuration is returned.
\<close>

theorem getProjectConfig_counterexample:
  "\<not> startsWith ''https://'' ''http://localhost:3000''
   \<and> getProjectConfig \<lparr>LANGFUSE_PUBLIC_KEY = Some ''pk-lf-test-key'',
                         LANGFUSE_SECRET_KEY = None,
                         LANGFUSE_BASEURL = Some ''http://localhost:3000''\<rparr>
       = Inl MissingVariables
   \<and> \<not> startsWith ''https://'' ''''
   \<and> getProjectConfig \<lparr>LANGFUSE_PUBLIC_KEY = Some ''pk-lf-test-key'',
                         LANGFUSE_SECRET_KEY = Some ''sk-lf-test-secret'',
                         LANGFUSE_BASEURL = Some ''''\<rparr>
       = Inr \<lparr>cfg_id = ''test'', baseUrl = ''https://cloud.langfuse.com'',
              publicKey = ''pk-lf-test-key'', secretKey = ''sk-lf-test-secret''\<rparr>"
  by (simp add: getProjectConfig_def truthyStr_def startsWith_def projectIdOf_def)

text \<open>
  C4, amended.  If either key is absent or empty, resolution fails with the
  missing-variables error, whatever the base URL.  With both keys present: a non-empty
  base URL that does not start with \<open>https://\<close> fails with the security error; one that
  starts with \<open>https://\<close> gives a configuration with that base URL and the two keys; an
  unset or empty base URL gives a configuration with the default
  \<open>https://cloud.langfuse.com\<close>.
\<close>

theorem getProjectConfig_cases:
  "(\<not> truthyStr (LANGFUSE_PUBLIC_KEY env) \<or> \<not> truthyStr (LANGFUSE_SECRET_KEY env) \<longrightarrow>
      getProjectConfig env = Inl MissingVariables)
   \<and> (truthyStr (LANGFUSE_PUBLIC_KEY env) \<and> truthyStr (LANGFUSE_SECRET_KEY env) \<longrightarrow>
        (\<forall>u. LANGFUSE_BASEURL env = Some u \<and> u \<noteq> [] \<and> \<not> startsWith ''https://'' u \<longrightarrow>
            getProjectConfig env = Inl (SecurityError u))
      \<and> (\<forall>u. LANGFUSE_BASEURL env = Some u \<and> startsWith ''https://'' u \<longrightarrow>
            (\<exists>i. getProjectConfig env
                   = Inr \<lparr>cfg_id = i, baseUrl = u,
                          publicKey = the (LANGFUSE_PUBLIC_KEY env),
                          secretKey = the (LANGFUSE_SECRET_KEY env)\<rparr>))
      \<and> (LANGFUSE_BASEURL env = None \<or> LANGFUSE_BASEURL env = Some [] \<longrightarrow>
            (\<exists>i. getProjectConfig env
                   = Inr \<lparr>cfg_id = i, baseUrl = ''https://cloud.langfuse.com'',
                          publicKey = the (LANGFUSE_PUBLIC_KEY env),
                          secretKey = the (LANGFUSE_SECRET_KEY env)\<rparr>)))"
  by (auto simp: getProjectConfig_def truthyStr_def startsWith_def Let_def)

theorem getProjectConfig_cases_witness:
  "getProjectConfig \<lparr>LANGFUSE_PUBLIC_KEY = None, LANGFUSE_SECRET_KEY = Some ''sk-lf-test-secret'',
                      LANGFUSE_BASEURL = Some ''https://cloud.langfuse.com''\<rparr>
     = Inl MissingVariables
   \<and> getProjectConfig \<lparr>LANGFUSE_PUBLIC_KEY = Some ''pk-lf-test-key'',
                        LANGFUSE_SECRET_KEY = Some ''sk-lf-test-secret'',
                        LANGFUSE_BASEURL = Some ''http://localhost:3000''\<rparr>
     = Inl (SecurityError ''http://localhost:3000'')
   \<and> (\<exists>i. getProjectConfig \<lparr>LANGFUSE_PUBLIC_KEY = Some ''pk-lf-test-key'',
                        LANGFUSE_SECRET_KEY = Some ''sk-lf-test-secret'',
                        LANGFUSE_BASEURL = Some ''https://eu.langfuse.example''\<rparr>
     = Inr \<lparr>cfg_id = i, baseUrl = ''https://eu.langfuse.example'',
            publicKey = ''pk-lf-test-key'', secretKey = ''sk-lf-test-secret''\<rparr>)
   \<and> (\<exists>i. getProjectConfig \<lparr>LANGFUSE_PUBLIC_KEY = Some ''pk-lf-test-key'',
                        LANGFUSE_SECRET_KEY = Some ''sk-lf-test-secret'',
                        LANGFUSE_BASEURL = None\<rparr>
     = Inr \<lparr>cfg_id = i, baseUrl = ''https://cloud.langfuse.com'',
            publicKey = ''pk-lf-test-key'', secretKey = ''sk-lf-test-secret''\<rparr>)"
  using getProjectConfig_cases
          [of "\<lparr>LANGFUSE_PUBLIC_KEY = None, LANGFUSE_SECRET_KEY = Some ''sk-lf-test-secret'',
                LANGFUSE_BASEURL = Some ''https://cloud.langfuse.com''\<rparr>"]
        getProjectConfig_cases
          [of "\<lparr>LANGFUSE_PUBLIC_KEY = Some ''pk-lf-test-key'',
                LANGFUSE_SECRET_KEY = Some ''sk-lf-test-secret'',
                LANGFUSE_BASEURL = Some ''http://localhost:3000''\<rparr>"]
        getProjectConfig_cases
          [of "\<lparr>LANGFUSE_PUBLIC_KEY = Some ''pk-lf-test-key'',
                LANGFUSE_SECRET_KEY = Some ''sk-lf-test-secret'',
                LANGFUSE_BASEURL = Some ''https://eu.langfuse.example''\<rparr>"]
        getProjectConfig_cases
          [of "\<lparr>LANGFUSE_PUBLIC_KEY = Some ''pk-lf-test-key'',
                LANGFUSE_SECRET_KEY = Some ''sk-lf-test-secret'',
                LANGFUSE_BASEURL = None\<rparr>"]
  by (simp add: truthyStr_def startsWith_def)

section \<open>Sanitising a URL for the log\<close>

lemma remdups_snoc: "remdups (ys @ [k]) = remdups (filter (\<lambda>x. x \<noteq> k) ys) @ [k]"
  by (induction ys) auto

lemma keys_sanitize_step:
  "map fst (foldl (\<lambda>sp (key, val). params_set key (f key val) sp) sp ps)
     = map fst sp @ rev (remdups (rev (filter (\<lambda>k. k \<notin> fst ` set sp) (map fst ps))))"
proof (induction ps arbitrary: sp)
  case Nil
  show ?case by simp
next
  case (Cons p ps)
  obtain k v where p: "p = (k, v)" by (cases p) auto
  show ?case
  proof (cases "k \<in> fst ` set sp")
    case True
    then have "map fst (params_set k (f k v) sp) = map fst sp"
      by (simp add: params_set_def update_keys)
    moreover from this have "fst ` set (params_set k (f k v) sp) = fst ` set sp"
      by (metis set_map)
    ultimately show ?thesis
      using True by (simp add: p Cons.IH)
  next
    case False
    then have keys: "map fst (params_set k (f k v) sp) = map fst sp @ [k]"
      by (simp add: params_set_def update_keys)
    then have "set (map fst (params_set k (f k v) sp)) = set (map fst sp @ [k])"
      by simp
    then have img: "fst ` set (params_set k (f k v) sp) = insert k (fst ` set sp)"
      by simp
    have "filter (\<lambda>x. x \<notin> insert k (fst ` set sp)) (map fst ps)
            = filter (\<lambda>x. x \<noteq> k) (filter (\<lambda>x. x \<notin> fst ` set sp) (map fst ps))"
      by (simp add: conj_commute)
    then show ?thesis
      using False by (simp add: p Cons.IH keys img remdups_snoc rev_filter del: set_map)
  qed
qed

lemma map_of_sanitize_step:
  "map_of (foldl (\<lambda>sp (key, val). params_set key (f key val) sp) sp ps) k
     = (case map_of (rev ps) k of Some v \<Rightarrow> Some (f k v) | None \<Rightarrow> map_of sp k)"
proof (induction ps arbitrary: sp)
  case Nil
  show ?case by simp
next
  case (Cons p ps)
  obtain k' v' where p: "p = (k', v')" by (cases p) auto
  have "map_of (params_set k' (f k' v') sp) k = (if k = k' then Some (f k' v') else map_of sp k)"
    by (simp add: params_set_def update_conv')
  then show ?case
    by (simp add: p Cons.IH map_add_def split: option.splits)
qed


lemma sanitizedParams_keys:
  "map fst (sanitizedParams ps) = rev (remdups (rev (map fst ps)))"
  using keys_sanitize_step
          [of "\<lambda>key val. if key \<in> set allowedParams then val else ''[REDACTED]''" "[]" ps]
  by (simp add: sanitizedParams_def if_distrib [of "\<lambda>v. params_set _ v _"] cong: if_cong)

lemma sanitizedParams_map_of:
  "map_of (sanitizedParams ps) k
     = (case map_of (rev ps) k of
          Some v \<Rightarrow> Some (if k \<in> set allowedParams then v else ''[REDACTED]'')
        | None \<Rightarrow> None)"
  using map_of_sanitize_step
          [of "\<lambda>key val. if key \<in> set allowedParams then val else ''[REDACTED]''" "[]" ps k]
  by (simp add: sanitizedParams_def if_distrib [of "\<lambda>v. params_set _ v _"]
      split: option.splits cong: if_cong)

lemma sanitizedParams_empty: "sanitizedParams ps = [] \<longleftrightarrow> ps = []"
proof -
  have "map fst (sanitizedParams ps) = [] \<longleftrightarrow> map fst ps = []"
    unfolding sanitizedParams_keys by (metis remdups_eq_nil_iff rev_is_Nil_conv)
  then show ?thesis by simp
qed

lemma params_toString_empty: "params_toString ps = [] \<longleftrightarrow> ps = []"
  by (induction ps rule: params_toString.induct) simp_all

lemma sanitizedParams_entry:
  assumes "(k, v) \<in> set (sanitizedParams ps)"
  shows "if k \<in> set allowedParams then map_of (rev ps) k = Some v else v = ''[REDACTED]''"
proof -
  have "distinct (map fst (sanitizedParams ps))"
    by (simp add: sanitizedParams_keys)
  then have "map_of (sanitizedParams ps) k = Some v"
    using assms by simp
  then show ?thesis
    by (auto simp: sanitizedParams_map_of split: option.splits if_splits)
qed

lemma fixture_sanitize:
  "sanitizeUrlForLogging fixtureParse
     ''https://cloud.langfuse.com/api/public/traces?sessionId=secret123&limit=10''
   = ''/api/public/traces?sessionId=%5BREDACTED%5D&limit=10''"
  by (simp add: sanitizeUrlForLogging_def fixtureParse_def sanitizedParams_def params_set_def
      allowedParams_def formEncode_def encodeByte_def unreserved_def)

text \<open>
  C5, as stated, fails twice.  A string the URL parser rejects comes back as the fixed
  placeholder, not as its path; and of a repeated allow-listed name only the last
  value is kept: \<open>page=1&page=2\<close> comes back as \<open>page=2\<close>.
\<close>

theorem sanitizeUrlForLogging_counterexample:
  "sanitizeUrlForLogging fixtureParse ''not a url'' = ''/api/[INVALID_URL]''
   \<and> sanitizeUrlForLogging fixtureParse
        ''https://cloud.langfuse.com/api/public/traces?page=1&page=2''
       = ''/api/public/traces?page=2''"
  by (simp add: sanitizeUrlForLogging_def fixtureParse_def sanitizedParams_def params_set_def
      allowedParams_def formEncode_def encodeByte_def unreserved_def)

text \<open>
  C5, amended.  For a string the parser rejects the result is \<open>/api/[INVALID_URL]\<close>.
  For a string it accepts, the result is the parsed path unchanged, followed, when
  there are query parameters, by \<open>?\<close> and the form-encoded sanitised parameters:
  one pair per distinct name, in the order of first occurrence; an allow-listed name
  carries the value of its last occurrence and every other name carries
  \<open>[REDACTED]\<close>.  For the query \<open>sessionId=secret123&limit=10\<close> the result keeps
  \<open>limit=10\<close> and has the marker, percent-encoded, for \<open>sessionId\<close>.
\<close>

theorem sanitizeUrlForLogging_parsed:
  "(parse u = None \<longrightarrow> sanitizeUrlForLogging parse u = ''/api/[INVALID_URL]'')
   \<and> (\<forall>urlObj. parse u = Some urlObj \<longrightarrow>
         sanitizeUrlForLogging parse u
           = pathname urlObj
             @ (if searchParams urlObj = [] then []
                else ''?'' @ params_toString (sanitizedParams (searchParams urlObj)))
       \<and> map fst (sanitizedParams (searchParams urlObj))
           = rev (remdups (rev (map fst (searchParams urlObj))))
       \<and> (\<forall>(k, v)\<in>set (sanitizedParams (searchParams urlObj)).
             if k \<in> set allowedParams then map_of (rev (searchParams urlObj)) k = Some v
             else v = ''[REDACTED]''))
   \<and> sanitizeUrlForLogging fixtureParse
        ''https://cloud.langfuse.com/api/public/traces?sessionId=secret123&limit=10''
       = ''/api/public/traces?sessionId=%5BREDACTED%5D&limit=10''"
proof -
  have a: "parse u = None \<longrightarrow> sanitizeUrlForLogging parse u = ''/api/[INVALID_URL]''"
    by (simp add: sanitizeUrlForLogging_def)
  have b: "\<forall>urlObj. parse u = Some urlObj \<longrightarrow>
         sanitizeUrlForLogging parse u
           = pathname urlObj
             @ (if searchParams urlObj = [] then []
                else ''?'' @ params_toString (sanitizedParams (searchParams urlObj)))"
    by (simp add: sanitizeUrlForLogging_def Let_def params_toString_empty sanitizedParams_empty)
  have c: "\<forall>urlObj. map fst (sanitizedParams (searchParams urlObj))
           = rev (remdups (rev (map fst (searchParams urlObj))))"
    by (simp add: sanitizedParams_keys)
  have d: "\<forall>urlObj. \<forall>(k, v)\<in>set (sanitizedParams (searchParams urlObj)).
             if k \<in> set allowedParams then map_of (rev (searchParams urlObj)) k = Some v
             else v = ''[REDACTED]''"
    using sanitizedParams_entry by blast
  from a b c d fixture_sanitize show ?thesis
    by blast
qed

theorem sanitizeUrlForLogging_parsed_witness:
  "fixtureParse ''https://cloud.langfuse.com/api/public/traces?sessionId=secret123&limit=10''
     = Some \<lparr>pathname = ''/api/public/traces'',
              searchParams = [(''sessionId'', ''secret123''), (''limit'', ''10'')]\<rparr>
   \<and> sanitizeUrlForLogging fixtureParse
        ''https://cloud.langfuse.com/api/public/traces?sessionId=secret123&limit=10''
       = ''/api/public/traces'' @ ''?''
         @ params_toString (sanitizedParams [(''sessionId'', ''secret123''), (''limit'', ''10'')])
   \<and> map fst (sanitizedParams [(''sessionId'', ''secret123''), (''limit'', ''10'')])
       = [''sessionId'', ''limit'']
   \<and> fixtureParse ''not a url'' = None
   \<and> sanitizeUrlForLogging fixtureParse ''not a url'' = ''/api/[INVALID_URL]''"
  using sanitizeUrlForLogging_parsed
          [of fixtureParse
              "''https://cloud.langfuse.com/api/public/traces?sessionId=secret123&limit=10''"]
        sanitizeUrlForLogging_parsed [of fixtureParse "''not a url''"]
  by (simp add: fixtureParse_def)

section \<open>What a failed transport call tells the caller\<close>

lemma handleApiError_message:
  "snd (handleApiError parse r operation u)
     = ''Failed to '' @ toLowerCase operation @ '': API returned status ''
       @ string_of_nat (status r)"
  by (simp add: handleApiError_def Let_def)

text \<open>
  Through \<open>handleApiError\<close> the message depends on the operation and the status alone:
  not on the body, the status text, the URL or the parser.
\<close>

lemma handleApiError_noninterference:
  "status r = status r' \<Longrightarrow>
   snd (handleApiError parse r operation u) = snd (handleApiError parse' r' operation u')"
  by (simp add: handleApiError_message)

lemma listTraces_handled_message:
  "\<not> ok (fetch (tracesUrl cfg p)) \<Longrightarrow>
   listTraces_handled parse fetch cfg p
     = Inl (''Failed to traces: API returned status ''
            @ string_of_nat (status (fetch (tracesUrl cfg p))))"
  by (simp add: listTraces_handled_def Let_def handleApiError_message toLowerCase_def
      toLowerChar_def)

lemma fixture_tracesUrl:
  "tracesUrl fixtureConfig fixtureTraces
     = ''https://cloud.langfuse.com/api/public/traces?limit=10&userId=alice''"
  by (simp add: tracesUrl_def fixtureConfig_def fixtureTraces_def tracesQuery_def truthyNat_def
      truthyStr_def formEncode_def encodeByte_def unreserved_def)

lemma fixture_tracesUrl_bob:
  "tracesUrl fixtureConfig (fixtureTraces\<lparr>p_userId := Some ''bob''\<rparr>)
     = ''https://cloud.langfuse.com/api/public/traces?limit=10&userId=bob''"
  by (simp add: tracesUrl_def fixtureConfig_def fixtureTraces_def tracesQuery_def truthyNat_def
      truthyStr_def formEncode_def encodeByte_def unreserved_def)

lemma string_of_nat_500: "string_of_nat 500 = ''500''"
  by simp

text \<open>
  C6 fails on \<open>listTraces\<close> of \<open>src/langfuse-client.ts\<close>: on a 500 response the message
  thrown to the caller holds the full URL with its query values and the body of the
  response, so two runs that differ in the body alone, or in a query value alone,
  throw different messages.
\<close>

theorem listTraces_error_leaks_url_and_body:
  "\<not> ok (fixtureFailure ''secret-body'')
   \<and> listTraces (\<lambda>u. fixtureFailure ''secret-body'') fixtureConfig fixtureTraces
       = Inl (''Traces API error: 500 Internal Server Error. URL: ''
              @ ''https://cloud.langfuse.com/api/public/traces?limit=10&userId=alice''
              @ ''. Response: secret-body'')
   \<and> listTraces (\<lambda>u. fixtureFailure ''other-body'') fixtureConfig fixtureTraces
       \<noteq> listTraces (\<lambda>u. fixtureFailure ''secret-body'') fixtureConfig fixtureTraces
   \<and> listTraces (\<lambda>u. fixtureFailure ''secret-body'') fixtureConfig
         (fixtureTraces\<lparr>p_userId := Some ''bob''\<rparr>)
       \<noteq> listTraces (\<lambda>u. fixtureFailure ''secret-body'') fixtureConfig fixtureTraces"
  by (simp add: listTraces_def Let_def fixture_tracesUrl fixture_tracesUrl_bob fixtureFailure_def
      ok_def string_of_nat_500 del: string_of_nat.simps)

section \<open>The envelopes of the call-tool handler\<close>

lemma fixture_toolOfName: "toolOfName ''get_cost_analysis'' = Some Get_cost_analysis"
  by (simp add: toolOfName_def)

lemma fixture_unknown_tool: "toolOfName ''delete_everything'' = None"
  by (simp add: toolOfName_def)

text \<open>The names the server announces are the names it dispatches.\<close>

lemma listedTools_dispatched: "toolOfName name \<noteq> None \<longleftrightarrow> name \<in> set listedTools"
proof -
  have "dom toolOfName = set listedTools"
    unfolding toolOfName_def dom_map_of_conv_image_fst by (simp add: listedTools_def)
  then show ?thesis
    by blast
qed

text \<open>
  C7, as stated, fails on a success: the envelope of a cost analysis that went well
  has no \<open>isError\<close> field at all, so it is not \<open>false\<close>.
\<close>

theorem callTool_counterexample:
  "callTool fixtureParseArgs fixtureHandlers ''get_cost_analysis'' fixtureArgs
     = \<lparr>content = [JsonText (costResult fixtureDates fixtureClient fixtureArgs)],
        isError = None\<rparr>
   \<and> isError (callTool fixtureParseArgs fixtureHandlers ''get_cost_analysis'' fixtureArgs)
       \<noteq> Some False"
  by (simp add: callTool_def fixture_toolOfName fixtureParseArgs_def fixtureHandlers_def
      getCostAnalysis_def)

text \<open>
  C7, amended.  A call never leaves the handler with an exception: an unknown name, a
  failed schema check and anything thrown by the tool all come back as the envelope
  with \<open>isError\<close> true and the text \<open>Error:\<close> followed by the message; when the tool
  returns, its envelope is handed on unchanged, and that of the cost analysis has no
  \<open>isError\<close> field.
\<close>

theorem callTool_envelope:
  "(toolOfName name = None \<longrightarrow>
      callTool parse handler name raw
        = \<lparr>content = [PlainText (''Error: Unknown tool: '' @ name)], isError = Some True\<rparr>)
   \<and> (\<forall>t e. toolOfName name = Some t \<and> parse t raw = Inl e \<longrightarrow>
        callTool parse handler name raw
          = \<lparr>content = [PlainText (''Error: '' @ e)], isError = Some True\<rparr>)
   \<and> (\<forall>t args e. toolOfName name = Some t \<and> parse t raw = Inr args \<and> handler t args = Inl e \<longrightarrow>
        callTool parse handler name raw
          = \<lparr>content = [PlainText (''Error: '' @ e)], isError = Some True\<rparr>)
   \<and> (\<forall>t args env. toolOfName name = Some t \<and> parse t raw = Inr args
          \<and> handler t args = Inr env \<longrightarrow>
        callTool parse handler name raw = env)
   \<and> ((\<exists>msg. callTool parse handler name raw
                = \<lparr>content = [PlainText (''Error: '' @ msg)], isError = Some True\<rparr>)
      \<or> (\<exists>t args. toolOfName name = Some t \<and> parse t raw = Inr args
            \<and> handler t args = Inr (callTool parse handler name raw)))
   \<and> isError (getCostAnalysis pd client cargs) = None"
  by (auto simp: callTool_def errorEnvelope_def getCostAnalysis_def
      split: option.splits sum.splits)

theorem callTool_envelope_witness:
  "toolOfName ''delete_everything'' = None
   \<and> callTool fixtureParseArgs fixtureHandlers ''delete_everything'' fixtureArgs
       = \<lparr>content = [PlainText ''Error: Unknown tool: delete_everything''], isError = Some True\<rparr>
   \<and> toolOfName ''get_traces'' = Some Get_traces
   \<and> fixtureParseArgs Get_traces fixtureArgs = Inr fixtureArgs
   \<and> fixtureHandlers Get_traces fixtureArgs = Inl ''Failed to traces: API returned status 500''
   \<and> callTool fixtureParseArgs fixtureHandlers ''get_traces'' fixtureArgs
       = \<lparr>content = [PlainText ''Error: Failed to traces: API returned status 500''],
          isError = Some True\<rparr>
   \<and> toolOfName ''get_cost_analysis'' = Some Get_cost_analysis
   \<and> fixtureHandlers Get_cost_analysis fixtureArgs
       = Inr (getCostAnalysis fixtureDates fixtureClient fixtureArgs)
   \<and> callTool fixtureParseArgs fixtureHandlers ''get_cost_analysis'' fixtureArgs
       = getCostAnalysis fixtureDates fixtureClient fixtureArgs"
  using callTool_envelope
          [of "''delete_everything''" fixtureParseArgs fixtureHandlers fixtureArgs]
        callTool_envelope [of "''get_traces''" fixtureParseArgs fixtureHandlers fixtureArgs]
        callTool_envelope
          [of "''get_cost_analysis''" fixtureParseArgs fixtureHandlers fixtureArgs]
  by (simp add: toolOfName_def fixtureParseArgs_def fixtureHandlers_def)

section \<open>The operations visible in each mode\<close>

lemma serve_mode: "srv_mode (fst (serve srv req)) = srv_mode srv"
  by (cases req) (simp_all add: serve_def)

lemma serve_server: "fst (serve srv req) = srv"
  by (cases req) (simp_all add: serve_def)

lemma serveAll_server: "serveAll srv reqs = srv"
  by (induction reqs arbitrary: srv) (simp_all add: serveAll_def serve_server)

text \<open>
  C9.  The read-only list has no mutating descriptor; the read-write list has every
  descriptor, in order, a mutating one under its name with the prefix; the mode is
  read-only when nothing is chosen at start-up, and it is the same after any sequence
  of requests.
\<close>

theorem mode_visibility:
  "(\<forall>d\<in>set (filterCatalog READONLY ops). \<not> mutating d)
   \<and> set (filterCatalog READONLY ops) \<subseteq> set ops
   \<and> length (filterCatalog READWRITE ops) = length ops
   \<and> (\<forall>i<length ops.
         mutating (filterCatalog READWRITE ops ! i) = mutating (ops ! i)
       \<and> op_description (filterCatalog READWRITE ops ! i) = op_description (ops ! i)
       \<and> op_name (filterCatalog READWRITE ops ! i)
           = (if mutating (ops ! i) then writePrefix @ op_name (ops ! i) else op_name (ops ! i)))
   \<and> (\<forall>d\<in>set (filterCatalog READWRITE ops). mutating d \<longrightarrow> startsWith writePrefix (op_name d))
   \<and> getServerMode None = READONLY
   \<and> srv_mode (startServer selector ops) = getServerMode selector
   \<and> listOperations (serveAll (startServer selector ops) reqs)
       = filterCatalog (getServerMode selector) ops
   \<and> srv_mode (serveAll (startServer selector ops) reqs) = getServerMode selector"
proof -
  have "\<forall>d\<in>set (filterCatalog READWRITE ops). mutating d \<longrightarrow> startsWith writePrefix (op_name d)"
    by (auto simp: filterCatalog_def visible_def startsWith_def)
  moreover have "\<forall>i<length ops.
         mutating (filterCatalog READWRITE ops ! i) = mutating (ops ! i)
       \<and> op_description (filterCatalog READWRITE ops ! i) = op_description (ops ! i)
       \<and> op_name (filterCatalog READWRITE ops ! i)
           = (if mutating (ops ! i) then writePrefix @ op_name (ops ! i) else op_name (ops ! i))"
    by (simp add: filterCatalog_def visible_def)
  ultimately show ?thesis
    by (simp add: serveAll_server listOperations_def startServer_def)
       (auto simp: filterCatalog_def getServerMode_def)
qed

theorem mode_visibility_witness:
  "filterCatalog READONLY fixtureCatalog
     = [\<lparr>op_name = ''get_cost_analysis'', op_description = ''Cost breakdowns'',
         mutating = False\<rparr>]
   \<and> filterCatalog READWRITE fixtureCatalog
     = [\<lparr>op_name = ''get_cost_analysis'', op_description = ''Cost breakdowns'',
         mutating = False\<rparr>,
        \<lparr>op_name = ''write_create_dataset'', op_description = ''Create a dataset'',
         mutating = True\<rparr>]
   \<and> startsWith writePrefix ''write_create_dataset''
   \<and> srv_mode (serveAll (startServer (Some ''readwrite'') fixtureCatalog)
                 [ListOperations, Invoke ''write_create_dataset'']) = READWRITE"
  using mode_visibility [of fixtureCatalog "Some ''readwrite''"
                           "[ListOperations, Invoke ''write_create_dataset'']"]
  by (simp add: filterCatalog_def fixtureCatalog_def visible_def writePrefix_def
      getServerMode_def startsWith_def)

section \<open>The copy returned by getConfig\<close>

lemma assign_length: "length (assign r w h) = length h"
  by (simp add: assign_def)

lemma assignAll_other:
  "k \<noteq> r \<Longrightarrow> assignAll r ws h ! k = h ! k"
proof (induction ws arbitrary: h)
  case Nil
  show ?case by (simp add: assignAll_def)
next
  case (Cons w ws)
  have "assignAll r (w # ws) h = assignAll r ws (assign r w h)"
    by (simp add: assignAll_def)
  moreover have "assign r w h ! k = h ! k"
    using Cons.prems by (simp add: assign_def)
  ultimately show ?case
    using Cons.IH [OF Cons.prems, of "assign r w h"] by simp
qed

text \<open>
  C10.  \<open>getConfig\<close> returns a new object with the field values of the client's
  configuration.  Whatever fields of that object are assigned afterwards, the client's
  own configuration, the credentials it sends and the outcome of its calls are what
  they were.
\<close>

theorem getConfig_copy_isolated:
  assumes "config c < length h"
  shows "fst (getConfig c h) \<noteq> config c
     \<and> snd (getConfig c h) ! fst (getConfig c h) = clientConfig c h
     \<and> clientConfig c (snd (getConfig c h)) = clientConfig c h
     \<and> clientConfig c (assignAll (fst (getConfig c h)) ws (snd (getConfig c h)))
         = clientConfig c h
     \<and> credentials c (assignAll (fst (getConfig c h)) ws (snd (getConfig c h)))
         = credentials c h
     \<and> client_listTraces fetch c (assignAll (fst (getConfig c h)) ws (snd (getConfig c h))) p
         = client_listTraces fetch c h p"
proof -
  have ne: "config c \<noteq> fst (getConfig c h)"
    using assms by (simp add: getConfig_def)
  have "assignAll (fst (getConfig c h)) ws (snd (getConfig c h)) ! config c
          = snd (getConfig c h) ! config c"
    by (rule assignAll_other [OF ne])
  also have "\<dots> = h ! config c"
    using assms by (simp add: getConfig_def nth_append)
  finally have keep: "clientConfig c (assignAll (fst (getConfig c h)) ws (snd (getConfig c h)))
                        = clientConfig c h"
    by (simp add: clientConfig_def)
  have "snd (getConfig c h) ! fst (getConfig c h) = clientConfig c h"
    by (simp add: getConfig_def clientConfig_def)
  moreover have "clientConfig c (snd (getConfig c h)) = clientConfig c h"
    using assms by (simp add: getConfig_def clientConfig_def nth_append)
  ultimately show ?thesis
    using ne keep by (simp add: credentials_def client_listTraces_def)
qed

theorem getConfig_copy_isolated_witness:
  "config fixtureAnalyticsClient < length fixtureStore
   \<and> fst (getConfig fixtureAnalyticsClient fixtureStore) = 1
   \<and> assignAll 1 [Set_baseUrl ''http://evil.example'', Set_secretKey ''x'']
        (snd (getConfig fixtureAnalyticsClient fixtureStore))
       = [fixtureConfig,
          fixtureConfig\<lparr>baseUrl := ''http://evil.example'', secretKey := ''x''\<rparr>]
   \<and> clientConfig fixtureAnalyticsClient
        (assignAll 1 [Set_baseUrl ''http://evil.example'', Set_secretKey ''x'']
           (snd (getConfig fixtureAnalyticsClient fixtureStore)))
       = fixtureConfig"
proof -
  have a: "config fixtureAnalyticsClient < length fixtureStore"
    by (simp add: fixtureAnalyticsClient_def fixtureStore_def)
  have b: "getConfig fixtureAnalyticsClient fixtureStore = (1, [fixtureConfig, fixtureConfig])"
    by (simp add: getConfig_def fixtureAnalyticsClient_def fixtureStore_def)
  have c: "clientConfig fixtureAnalyticsClient fixtureStore = fixtureConfig"
    by (simp add: clientConfig_def fixtureAnalyticsClient_def fixtureStore_def)
  have d: "assignAll 1 [Set_baseUrl ''http://evil.example'', Set_secretKey ''x'']
             [fixtureConfig, fixtureConfig]
           = [fixtureConfig,
              fixtureConfig\<lparr>baseUrl := ''http://evil.example'', secretKey := ''x''\<rparr>]"
    by (simp add: assignAll_def assign_def)
  show ?thesis
    using getConfig_copy_isolated
            [OF a, of "[Set_baseUrl ''http://evil.example'', Set_secretKey ''x'']"]
          a b c d
    by simp
qed

end
